theory Spec2Isabelle
  imports
    Complex_Main
    "HOL-Library.Sublist"
    "HOL-Library.Multiset"
    "HOL-Library.Char_ord"
    "HOL-Library.List_Lexorder"
begin

section \<open>The supply-chain dashboard: data model\<close>

text \<open>
  The program \<^verbatim>\<open>supply_chain_dash.py\<close> is one script over a pandas data frame. The frame
  is a list of rows in file order, one record field per column. A missing cell (pandas
  \<^verbatim>\<open>NaN\<close>) is \<open>None\<close>. Numbers are exact reals: rounding of binary floating point is
  outside this development.
\<close>

type_synonym category = "string option"
type_synonym number = "real option"

text \<open>
  The five currency columns are the only ones the loader rewrites; the record is
  polymorphic in the type of their cells, raw after \<^verbatim>\<open>read_csv\<close> and numeric after
  \<^verbatim>\<open>load_data\<close>.
\<close>

record 'c row =
  product_type :: category
  location :: category
  transportation_modes :: category
  routes :: category
  shipping_carriers :: category
  supplier_name :: category
  customer_demographics :: category
  inspection_results :: category
  sku :: category
  price :: 'c
  revenue_generated :: 'c
  shipping_costs :: 'c
  manufacturing_costs :: 'c
  costs :: 'c
  number_of_products_sold :: number
  defect_rates :: number
  lead_times :: number
  shipping_times :: number
  production_volumes :: number
  manufacturing_lead_time :: number
  stock_levels :: number
  order_quantities :: number
  availability :: number

type_synonym dataset = "number row list"

subsection \<open>Column primitives of the data-frame library\<close>

text \<open>\<^verbatim>\<open>df[col]\<close>: the column as a series, in row order.\<close>

definition column :: "('r \<Rightarrow> 'a) \<Rightarrow> 'r list \<Rightarrow> 'a list" where
  "column col frame = map col frame"

text \<open>
  \<^verbatim>\<open>series.unique()\<close>: the distinct values in order of first appearance; a missing
  value is one of them when the column has one.
\<close>

fun unique_from :: "'a list \<Rightarrow> 'a list \<Rightarrow> 'a list" where
  "unique_from seen [] = []"
| "unique_from seen (x # xs) =
     (if x \<in> set seen then unique_from seen xs else x # unique_from (x # seen) xs)"

definition unique :: "'a list \<Rightarrow> 'a list" where
  "unique xs = unique_from [] xs"

text \<open>
  \<^verbatim>\<open>series.isin(values)\<close>: the boolean mask of membership, cell by cell. It raises for
  no list of values; a missing cell matches a missing value in the list.
\<close>

definition isin :: "'a list \<Rightarrow> 'a list \<Rightarrow> bool list" where
  "isin series vals = map (\<lambda>v. v \<in> set vals) series"

text \<open>\<^verbatim>\<open>mask1 & mask2\<close> on two boolean series of one frame.\<close>

definition mask_and :: "bool list \<Rightarrow> bool list \<Rightarrow> bool list" where
  "mask_and m1 m2 = map (\<lambda>(a, b). a \<and> b) (zip m1 m2)"

text \<open>\<^verbatim>\<open>df[mask]\<close>: a new frame of the rows whose mask entry is true.\<close>

fun boolean_index :: "'r list \<Rightarrow> bool list \<Rightarrow> 'r list" where
  "boolean_index (r # rs) (b # bs) = (if b then r # boolean_index rs bs else boolean_index rs bs)"
| "boolean_index _ _ = []"

subsection \<open>The filter of lines 80 to 84\<close>

record selection =
  selected_product_type :: "category list"
  selected_location :: "category list"
  selected_transport :: "category list"

definition apply_filters ::
  "dataset \<Rightarrow> category list \<Rightarrow> category list \<Rightarrow> category list \<Rightarrow> dataset" where
  "apply_filters df pts locs tms =
     boolean_index df
       (mask_and
         (mask_and (isin (column product_type df) pts) (isin (column location df) locs))
         (isin (column transportation_modes df) tms))"

text \<open>The default of the three multiselect widgets (lines 61 to 77): every option.\<close>

definition default_selection :: "dataset \<Rightarrow> selection" where
  "default_selection df =
     \<lparr> selected_product_type = unique (column product_type df),
       selected_location = unique (column location df),
       selected_transport = unique (column transportation_modes df) \<rparr>"

subsection \<open>Series reductions\<close>

text \<open>\<^verbatim>\<open>series.dropna()\<close>: the present values, in order.\<close>

fun dropna :: "'a option list \<Rightarrow> 'a list" where
  "dropna [] = []"
| "dropna (None # xs) = dropna xs"
| "dropna (Some x # xs) = x # dropna xs"

text \<open>
  \<^verbatim>\<open>series.sum()\<close> skips missing values and is 0 on a series with none present;
  \<^verbatim>\<open>series.mean()\<close> skips them too and is \<^verbatim>\<open>NaN\<close> there.
\<close>

definition series_sum :: "number list \<Rightarrow> real" where
  "series_sum xs = sum_list (dropna xs)"

definition series_mean :: "number list \<Rightarrow> number" where
  "series_mean xs =
     (let ys = dropna xs
      in if ys = [] then None else Some (sum_list ys / real (length ys)))"

subsection \<open>Grouped aggregates\<close>

text \<open>
  \<^verbatim>\<open>df.groupby(key)\<close> with the library's defaults: one group per distinct present key,
  groups in ascending key order, and rows whose key is missing in no group at all.
\<close>

definition group_keys :: "('r \<Rightarrow> category) \<Rightarrow> 'r list \<Rightarrow> string list" where
  "group_keys key frame = sort (unique (dropna (column key frame)))"

definition group_rows :: "('r \<Rightarrow> category) \<Rightarrow> string \<Rightarrow> 'r list \<Rightarrow> 'r list" where
  "group_rows key k frame = filter (\<lambda>r. key r = Some k) frame"

text \<open>\<^verbatim>\<open>df.groupby(key)[measure].sum().reset_index()\<close>, as on line 118.\<close>

definition groupby_sum ::
  "('r \<Rightarrow> category) \<Rightarrow> ('r \<Rightarrow> number) \<Rightarrow> 'r list \<Rightarrow> (string \<times> real) list" where
  "groupby_sum key col frame =
     map (\<lambda>k. (k, series_sum (column col (group_rows key k frame)))) (group_keys key frame)"

text \<open>\<^verbatim>\<open>df.groupby(key)[measure].mean().reset_index()\<close>, as on line 187.\<close>

definition groupby_mean ::
  "('r \<Rightarrow> category) \<Rightarrow> ('r \<Rightarrow> number) \<Rightarrow> 'r list \<Rightarrow> (string \<times> number) list" where
  "groupby_mean key col frame =
     map (\<lambda>k. (k, series_mean (column col (group_rows key k frame)))) (group_keys key frame)"

subsection \<open>The quality rates of lines 529 and 530\<close>

text \<open>
  \<^verbatim>\<open>(df_filtered['Inspection results'] == v).sum() / len(df_filtered) * 100\<close>.
  The numerator is a numpy integer, so the division is numpy's: on an empty frame both
  operands are 0 and the quotient is \<^verbatim>\<open>NaN\<close> with a warning, where Python's own
  integers would raise \<^verbatim>\<open>ZeroDivisionError\<close>. A non-zero numerator over 0 cannot occur,
  since the count is at most the length.
\<close>

definition np_true_divide :: "nat \<Rightarrow> nat \<Rightarrow> number" where
  "np_true_divide a b = (if b = 0 then None else Some (real a / real b))"

definition inspection_rate :: "string \<Rightarrow> 'c row list \<Rightarrow> number" where
  "inspection_rate v frame =
     map_option (\<lambda>q. q * 100)
       (np_true_divide
          (length (filter (\<lambda>c. c = Some v) (column inspection_results frame)))
          (length frame))"

subsection \<open>The ten largest rows of line 325\<close>

text \<open>
  \<^verbatim>\<open>df.nlargest(n, col)\<close> with \<^verbatim>\<open>keep='first'\<close>: nothing for \<open>n \<le> 0\<close>; otherwise the rows
  with a present value in descending order, equal values in frame order, then the rows
  with a missing value, and of all that the first \<open>n\<close>.
\<close>

definition nlargest :: "int \<Rightarrow> ('r \<Rightarrow> number) \<Rightarrow> 'r list \<Rightarrow> 'r list" where
  "nlargest n col frame =
     (if n \<le> 0 then []
      else
        let dropped = filter (\<lambda>r. col r \<noteq> None) frame;
            nan_index = filter (\<lambda>r. col r = None) frame
        in take (nat n) (sort_key (\<lambda>r. - the (col r)) dropped @ nan_index))"

subsection \<open>The correlation matrix of lines 388 to 392\<close>

definition numeric_cols :: "(number row \<Rightarrow> number) list" where
  "numeric_cols =
     [price, availability, number_of_products_sold, revenue_generated, stock_levels,
      lead_times, order_quantities, shipping_times, production_volumes,
      manufacturing_lead_time, defect_rates]"

text \<open>The rows in which both columns of a pair are present.\<close>

fun pairwise_complete :: "('r \<Rightarrow> number) \<Rightarrow> ('r \<Rightarrow> number) \<Rightarrow> 'r list \<Rightarrow> (real \<times> real) list" where
  "pairwise_complete cx cy [] = []"
| "pairwise_complete cx cy (r # rs) =
     (case (cx r, cy r) of
        (Some x, Some y) \<Rightarrow> (x, y) # pairwise_complete cx cy rs
      | _ \<Rightarrow> pairwise_complete cx cy rs)"

text \<open>
  Pearson's coefficient of the complete pairs, with \<^verbatim>\<open>min_periods = 1\<close>: \<^verbatim>\<open>NaN\<close> when
  there is no pair, and \<^verbatim>\<open>NaN\<close> when the divisor is 0, which is a division the library
  does not carry out.
\<close>

definition pearson :: "(real \<times> real) list \<Rightarrow> number" where
  "pearson ps =
     (let nobs = length ps
      in if nobs < 1 then None
         else
           let meanx = sum_list (map fst ps) / real nobs;
               meany = sum_list (map snd ps) / real nobs;
               ssqdm_x = sum_list (map (\<lambda>(x, y). (x - meanx) * (x - meanx)) ps);
               ssqdm_y = sum_list (map (\<lambda>(x, y). (y - meany) * (y - meany)) ps);
               covxy = sum_list (map (\<lambda>(x, y). (x - meanx) * (y - meany)) ps);
               divisor = sqrt (ssqdm_x * ssqdm_y)
           in if divisor \<noteq> 0 then Some (covxy / divisor) else None)"

text \<open>\<^verbatim>\<open>df[cols].corr()\<close>: one row of the matrix per column, one cell per pair.\<close>

definition corr :: "('r \<Rightarrow> number) list \<Rightarrow> 'r list \<Rightarrow> number list list" where
  "corr cols frame =
     map (\<lambda>cx. map (\<lambda>cy. pearson (pairwise_complete cx cy frame)) cols) cols"

section \<open>The loader of lines 37 to 53\<close>

text \<open>
  What \<^verbatim>\<open>read_csv\<close> leaves in a cell of a currency column: text, or a number (missing
  included) when the whole column parsed as numbers.
\<close>

datatype cell = Str string | Num number







section \<open>One run of the script\<close>

text \<open>
  The variables of the script that the properties below speak of. Streamlit runs the
  script again from the top on every change of a widget, with the cached frame.
\<close>

record session =
  df :: dataset
  df_filtered :: dataset
  total_revenue :: real
  revenue_by_product :: "(string \<times> real) list"
  avg_shipping_time :: "(string \<times> number) list"
  top_products :: dataset
  correlation_matrix :: "number list list"
  pass_rate :: number
  fail_rate :: number

definition run_page :: "dataset \<Rightarrow> selection \<Rightarrow> session" where
  "run_page d sel =
     (let filtered =
            apply_filters d (selected_product_type sel) (selected_location sel)
              (selected_transport sel)
      in \<lparr> df = d,
           df_filtered = filtered,
           total_revenue = series_sum (column revenue_generated filtered),
           revenue_by_product = groupby_sum product_type revenue_generated filtered,
           avg_shipping_time = groupby_mean shipping_carriers shipping_times filtered,
           top_products = nlargest 10 revenue_generated filtered,
           correlation_matrix = corr numeric_cols filtered,
           pass_rate = inspection_rate ''Pass'' filtered,
           fail_rate = inspection_rate ''Fail'' filtered \<rparr>)"



subsection \<open>Sample data\<close>

definition blank_row :: "'c \<Rightarrow> 'c row" where
  "blank_row c =
     \<lparr> product_type = None, location = None, transportation_modes = None, routes = None,
       shipping_carriers = None, supplier_name = None, customer_demographics = None,
       inspection_results = None, sku = None,
       price = c, revenue_generated = c, shipping_costs = c,
       manufacturing_costs = c, costs = c,
       number_of_products_sold = None, defect_rates = None, lead_times = None,
       shipping_times = None, production_volumes = None, manufacturing_lead_time = None,
       stock_levels = None, order_quantities = None, availability = None \<rparr>"

text \<open>A row of the three filter columns and the revenue, everything else missing.\<close>

definition sample_row :: "string \<Rightarrow> string \<Rightarrow> string \<Rightarrow> number \<Rightarrow> number row" where
  "sample_row pt loc tm v =
     (blank_row None) \<lparr> product_type := Some pt, location := Some loc,
                        transportation_modes := Some tm, revenue_generated := v \<rparr>"

definition sample_df :: dataset where
  "sample_df =
     [sample_row ''haircare'' ''Mumbai'' ''Road'' (Some 100),
      sample_row ''haircare'' ''Delhi'' ''Air'' (Some 50),
      sample_row ''skincare'' ''Mumbai'' ''Rail'' (Some 200)]"



text \<open>The sample frame with prices, for the correlation of two columns.\<close>

definition priced_df :: dataset where
  "priced_df =
     [(sample_row ''haircare'' ''Mumbai'' ''Road'' (Some 100)) \<lparr> price := Some 10 \<rparr>,
      (sample_row ''haircare'' ''Delhi'' ''Air'' (Some 50)) \<lparr> price := Some 30 \<rparr>,
      (sample_row ''skincare'' ''Mumbai'' ''Rail'' (Some 200)) \<lparr> price := Some 20 \<rparr>]"


section \<open>Properties of the filter\<close>

lemma boolean_index_map:
  "boolean_index rs (map P rs) = filter P rs"
  by (induction rs) simp_all

lemma mask_and_map:
  "mask_and (map P rs) (map Q rs) = map (\<lambda>r. P r \<and> Q r) rs"
  by (induction rs) (simp_all add: mask_and_def)

lemma apply_filters_filter:
  "apply_filters d pts locs tms =
     filter (\<lambda>r. product_type r \<in> set pts \<and> location r \<in> set locs
                  \<and> transportation_modes r \<in> set tms) d"
proof -
  have "mask_and
         (mask_and (isin (column product_type d) pts) (isin (column location d) locs))
         (isin (column transportation_modes d) tms)
        = map (\<lambda>r. product_type r \<in> set pts \<and> location r \<in> set locs
                  \<and> transportation_modes r \<in> set tms) d"
    by (simp add: isin_def column_def mask_and_map o_def)
  then show ?thesis
    by (simp add: apply_filters_def boolean_index_map)
qed

lemma set_unique_from:
  "set (unique_from seen xs) = set xs - set seen"
  by (induction xs arbitrary: seen) auto

lemma set_unique: "set (unique xs) = set xs"
  by (simp add: unique_def set_unique_from)

lemma filter_imp_subseq:
  "(\<And>x. x \<in> set xs \<Longrightarrow> P x \<Longrightarrow> Q x) \<Longrightarrow> subseq (filter P xs) (filter Q xs)"
  by (induction xs) auto


text \<open>
  Claim C1. After a run of the script, the filtered view is exactly the rows of the
  dataset whose product type, location and transportation mode are each among the
  selected values, in the order of the dataset; it is a subsequence of the dataset, and
  the dataset is what it was.
\<close>

theorem filtered_view_exact:
  "df_filtered (run_page d sel) =
     filter (\<lambda>r. product_type r \<in> set (selected_product_type sel)
                \<and> location r \<in> set (selected_location sel)
                \<and> transportation_modes r \<in> set (selected_transport sel)) d
   \<and> subseq (df_filtered (run_page d sel)) d
   \<and> df (run_page d sel) = d"
  by (simp add: run_page_def Let_def apply_filters_filter)

text \<open>
  Claim C6. With each selection the full list of values observed in its column, which
  is the default of the widgets, the filter returns the whole dataset in its order.
\<close>

theorem full_domain_is_identity:
  "apply_filters d (unique (column product_type d)) (unique (column location d))
      (unique (column transportation_modes d)) = d
   \<and> df_filtered (run_page d (default_selection d)) = d"
  by (simp add: run_page_def Let_def default_selection_def apply_filters_filter set_unique
      column_def)

text \<open>
  Claim C8. A selected value that occurs nowhere in its column matches no row: the
  filter returns what it returns with that value removed from the selection, for each of
  the three columns. The filter is a total function, so there is no error to raise.
\<close>

theorem stale_value_matches_nothing:
  "(v \<notin> set (column product_type d) \<longrightarrow>
      apply_filters d pts locs tms = apply_filters d (removeAll v pts) locs tms)
   \<and> (v \<notin> set (column location d) \<longrightarrow>
      apply_filters d pts locs tms = apply_filters d pts (removeAll v locs) tms)
   \<and> (v \<notin> set (column transportation_modes d) \<longrightarrow>
      apply_filters d pts locs tms = apply_filters d pts locs (removeAll v tms))"
  by (auto simp add: apply_filters_filter column_def intro!: filter_cong)

theorem stale_value_matches_nothing_witness:
  "Some ''snacks'' \<notin> set (column product_type sample_df)
   \<and> Some ''Pune'' \<notin> set (column location sample_df)
   \<and> Some ''Sea'' \<notin> set (column transportation_modes sample_df)
   \<and> apply_filters sample_df [Some ''snacks'', Some ''haircare''] [Some ''Mumbai''] [Some ''Road'']
       = apply_filters sample_df [Some ''haircare''] [Some ''Mumbai''] [Some ''Road'']
   \<and> apply_filters sample_df [Some ''haircare''] [Some ''Mumbai'', Some ''Pune''] [Some ''Road'']
       = apply_filters sample_df [Some ''haircare''] [Some ''Mumbai''] [Some ''Road'']
   \<and> apply_filters sample_df [Some ''haircare''] [Some ''Mumbai''] [Some ''Sea'', Some ''Road'']
       = apply_filters sample_df [Some ''haircare''] [Some ''Mumbai''] [Some ''Road'']
   \<and> apply_filters sample_df [Some ''haircare''] [Some ''Mumbai''] [Some ''Road'']
       = [sample_row ''haircare'' ''Mumbai'' ''Road'' (Some 100)]"
  using
    stale_value_matches_nothing [of "Some ''snacks''" sample_df
      "[Some ''snacks'', Some ''haircare'']" "[Some ''Mumbai'']" "[Some ''Road'']"]
    stale_value_matches_nothing [of "Some ''Pune''" sample_df
      "[Some ''haircare'']" "[Some ''Mumbai'', Some ''Pune'']" "[Some ''Road'']"]
    stale_value_matches_nothing [of "Some ''Sea''" sample_df
      "[Some ''haircare'']" "[Some ''Mumbai'']" "[Some ''Sea'', Some ''Road'']"]
  by (simp add: sample_df_def sample_row_def blank_row_def column_def apply_filters_filter)


text \<open>
  Claim C10. The filter is monotone: when each selection of one triple is contained in
  the corresponding selection of another, the view of the first is a subsequence of the
  view of the second.
\<close>

theorem filter_monotone:
  assumes "set S1 \<subseteq> set T1" and "set S2 \<subseteq> set T2" and "set S3 \<subseteq> set T3"
  shows "subseq (apply_filters d S1 S2 S3) (apply_filters d T1 T2 T3)"
  unfolding apply_filters_filter using assms by (intro filter_imp_subseq) auto

theorem filter_monotone_witness:
  "set [Some ''haircare''] \<subseteq> set [Some ''haircare'', Some ''skincare'']
   \<and> set [Some ''Mumbai''] \<subseteq> set [Some ''Mumbai'', Some ''Delhi'']
   \<and> set [Some ''Road''] \<subseteq> set [Some ''Road'', Some ''Rail'']
   \<and> subseq (apply_filters sample_df [Some ''haircare''] [Some ''Mumbai''] [Some ''Road''])
        (apply_filters sample_df [Some ''haircare'', Some ''skincare'']
           [Some ''Mumbai'', Some ''Delhi''] [Some ''Road'', Some ''Rail''])
   \<and> apply_filters sample_df [Some ''haircare''] [Some ''Mumbai''] [Some ''Road'']
       = [sample_row ''haircare'' ''Mumbai'' ''Road'' (Some 100)]
   \<and> apply_filters sample_df [Some ''haircare'', Some ''skincare'']
           [Some ''Mumbai'', Some ''Delhi''] [Some ''Road'', Some ''Rail'']
       = [sample_row ''haircare'' ''Mumbai'' ''Road'' (Some 100),
          sample_row ''skincare'' ''Mumbai'' ''Rail'' (Some 200)]"
  using filter_monotone [of "[Some ''haircare'']" "[Some ''haircare'', Some ''skincare'']"
      "[Some ''Mumbai'']" "[Some ''Mumbai'', Some ''Delhi'']"
      "[Some ''Road'']" "[Some ''Road'', Some ''Rail'']" sample_df]
  by (simp add: sample_df_def sample_row_def blank_row_def apply_filters_filter)

section \<open>The empty view\<close>


section \<open>Group totals and the grand total\<close>













section \<open>The loader\<close>









section \<open>The correlation matrix\<close>

lemma pairwise_complete_swap:
  "pairwise_complete cy cx rs = map prod.swap (pairwise_complete cx cy rs)"
  by (induction rs) (auto split: option.splits)

lemma pairwise_complete_same:
  "pairwise_complete c c rs = map (\<lambda>x. (x, x)) (dropna (column c rs))"
proof (induction rs)
  case Nil
  then show ?case by (simp add: column_def)
next
  case (Cons r rs)
  then show ?case by (cases "c r") (simp_all add: column_def)
qed

lemma pearson_swap: "pearson (map prod.swap ps) = pearson ps"
  by (simp add: pearson_def Let_def o_def split_def mult.commute)

lemma corr_nth:
  "i < length cols \<Longrightarrow> j < length cols \<Longrightarrow>
   corr cols rs ! i ! j = pearson (pairwise_complete (cols ! i) (cols ! j) rs)"
  by (simp add: corr_def)

lemma corr_symmetric:
  "i < length cols \<Longrightarrow> j < length cols \<Longrightarrow> corr cols rs ! i ! j = corr cols rs ! j ! i"
  by (simp add: corr_nth pairwise_complete_swap [of "cols ! j" "cols ! i"] pearson_swap)

lemma sum_list_const:
  fixes a :: real
  shows "\<forall>x \<in> set xs. x = a \<Longrightarrow> sum_list xs = real (length xs) * a"
  by (induction xs) (simp_all add: algebra_simps)

lemma ssq_zero_iff:
  fixes xs :: "real list"
  assumes "xs \<noteq> []"
  shows "sum_list (map (\<lambda>x. (x - sum_list xs / real (length xs)) * (x - sum_list xs / real (length xs))) xs) = 0
         \<longleftrightarrow> \<not> (\<exists>a \<in> set xs. \<exists>b \<in> set xs. a \<noteq> b)"
proof -
  let ?m = "sum_list xs / real (length xs)"
  have "sum_list (map (\<lambda>x. (x - ?m) * (x - ?m)) xs) = 0 \<longleftrightarrow> (\<forall>x \<in> set xs. x = ?m)"
    by (subst sum_list_nonneg_eq_0_iff) auto
  also have "\<dots> \<longleftrightarrow> \<not> (\<exists>a \<in> set xs. \<exists>b \<in> set xs. a \<noteq> b)"
  proof
    assume "\<forall>x \<in> set xs. x = ?m"
    then show "\<not> (\<exists>a \<in> set xs. \<exists>b \<in> set xs. a \<noteq> b)" by metis
  next
    assume same: "\<not> (\<exists>a \<in> set xs. \<exists>b \<in> set xs. a \<noteq> b)"
    from assms obtain a where a: "a \<in> set xs" by (cases xs) auto
    with same have all: "\<forall>x \<in> set xs. x = a" by blast
    then have "sum_list xs = real (length xs) * a" by (rule sum_list_const)
    with assms have "?m = a" by simp
    with all show "\<forall>x \<in> set xs. x = ?m" by simp
  qed
  finally show ?thesis .
qed

lemma pearson_same:
  "pearson (map (\<lambda>x. (x, x)) xs)
     = (if \<exists>a \<in> set xs. \<exists>b \<in> set xs. a \<noteq> b then Some 1 else None)"
proof (cases "xs = []")
  case True
  then show ?thesis by (simp add: pearson_def)
next
  case False
  let ?m = "sum_list xs / real (length xs)"
  let ?S = "sum_list (map (\<lambda>x. (x - ?m) * (x - ?m)) xs)"
  have len: "\<not> length xs < 1" using False by (cases xs) auto
  have p: "pearson (map (\<lambda>x. (x, x)) xs) = (if sqrt (?S * ?S) \<noteq> 0 then Some (?S / sqrt (?S * ?S)) else None)"
    using len by (simp add: pearson_def Let_def o_def)
  have nonneg: "0 \<le> ?S" by (rule sum_list_nonneg) auto
  then have sq: "sqrt (?S * ?S) = ?S" by simp
  show ?thesis
    unfolding p sq using ssq_zero_iff [OF False] by auto
qed

lemma pearson_few: "length ps < 2 \<Longrightarrow> pearson ps = None"
proof -
  assume "length ps < 2"
  then consider "ps = []" | p where "ps = [p]"
    by (cases ps; cases "tl ps") auto
  then show ?thesis
  proof cases
    case 1
    then show ?thesis by (simp add: pearson_def)
  next
    case 2
    then show ?thesis by (cases p) (simp add: pearson_def Let_def)
  qed
qed


text \<open>
  Claim C3, as the specification states it, fails on the diagonal. A view of one row is
  not empty, and every cell of its matrix is the not-a-number marker, the diagonal too:
  one value has no spread, so the divisor is 0. The view is what the filter returns from
  the sample frame for the selection of its third row.
\<close>

theorem correlation_diagonal_counterexample:
  "df_filtered (run_page sample_df
       \<lparr>selected_product_type = [Some ''skincare''], selected_location = [Some ''Mumbai''],
        selected_transport = [Some ''Rail'']\<rparr>)
     = [sample_row ''skincare'' ''Mumbai'' ''Rail'' (Some 200)]
   \<and> revenue_generated (sample_row ''skincare'' ''Mumbai'' ''Rail'' (Some 200)) = Some 200
   \<and> numeric_cols ! 3 = revenue_generated
   \<and> correlation_matrix (run_page sample_df
       \<lparr>selected_product_type = [Some ''skincare''], selected_location = [Some ''Mumbai''],
        selected_transport = [Some ''Rail'']\<rparr>) ! 3 ! 3 = None
   \<and> correlation_matrix (run_page sample_df
       \<lparr>selected_product_type = [Some ''skincare''], selected_location = [Some ''Mumbai''],
        selected_transport = [Some ''Rail'']\<rparr>) ! 3 ! 3 \<noteq> Some 1"
  by (simp add: run_page_def Let_def apply_filters_filter sample_df_def sample_row_def
      blank_row_def corr_def numeric_cols_def pearson_def)

text \<open>
  Claim C3, amended. For every view the matrix over the fixed list of numeric columns
  is symmetric. A diagonal entry is exactly 1 when the column has two different present
  values in the view, and the not-a-number marker otherwise. A cell whose pair of
  columns has fewer than two rows with both values present is the not-a-number marker.
  Every cell is a value: the matrix has no error to raise.
\<close>

theorem correlation_matrix_properties:
  "(i < length numeric_cols \<longrightarrow> j < length numeric_cols \<longrightarrow>
      corr numeric_cols view ! i ! j = corr numeric_cols view ! j ! i)
   \<and> (i < length numeric_cols \<longrightarrow>
      corr numeric_cols view ! i ! i =
        (if \<exists>a \<in> set (dropna (column (numeric_cols ! i) view)).
              \<exists>b \<in> set (dropna (column (numeric_cols ! i) view)). a \<noteq> b
         then Some 1 else None))
   \<and> (i < length numeric_cols \<longrightarrow> j < length numeric_cols \<longrightarrow>
      length (pairwise_complete (numeric_cols ! i) (numeric_cols ! j) view) < 2 \<longrightarrow>
      corr numeric_cols view ! i ! j = None)"
  by (simp add: corr_symmetric)
     (simp add: corr_nth pairwise_complete_same pearson_same pearson_few)

theorem correlation_matrix_properties_witness:
  "(0::nat) < length numeric_cols \<and> (2::nat) < length numeric_cols
   \<and> (3::nat) < length numeric_cols
   \<and> pairwise_complete (numeric_cols ! 0) (numeric_cols ! 3) priced_df
       = [(10, 100), (30, 50), (20, 200)]
   \<and> corr numeric_cols priced_df ! 0 ! 3 = corr numeric_cols priced_df ! 3 ! 0
   \<and> dropna (column (numeric_cols ! 0) priced_df) = [10, 30, 20]
   \<and> corr numeric_cols priced_df ! 0 ! 0 = Some 1
   \<and> dropna (column (numeric_cols ! 2) priced_df) = []
   \<and> corr numeric_cols priced_df ! 2 ! 2 = None
   \<and> length (pairwise_complete (numeric_cols ! 0) (numeric_cols ! 2) priced_df) < 2
   \<and> corr numeric_cols priced_df ! 0 ! 2 = None"
proof -
  have len: "(0::nat) < length numeric_cols" "(2::nat) < length numeric_cols"
    "(3::nat) < length numeric_cols"
    by (simp_all add: numeric_cols_def)
  have pairs: "pairwise_complete (numeric_cols ! 0) (numeric_cols ! 3) priced_df
      = [(10, 100), (30, 50), (20, 200)]"
    by (simp add: numeric_cols_def priced_df_def sample_row_def blank_row_def)
  have prices: "dropna (column (numeric_cols ! 0) priced_df) = [10, 30, 20]"
    by (simp add: numeric_cols_def priced_df_def sample_row_def blank_row_def column_def)
  have sold: "dropna (column (numeric_cols ! 2) priced_df) = []"
    by (simp add: numeric_cols_def priced_df_def sample_row_def blank_row_def column_def)
  have few: "length (pairwise_complete (numeric_cols ! 0) (numeric_cols ! 2) priced_df) < 2"
    by (simp add: numeric_cols_def priced_df_def sample_row_def blank_row_def)
  have sym: "corr numeric_cols priced_df ! 0 ! 3 = corr numeric_cols priced_df ! 3 ! 0"
    using correlation_matrix_properties [of 0 3 priced_df] len by blast
  have spread: "\<exists>a \<in> set (dropna (column (numeric_cols ! 0) priced_df)).
      \<exists>b \<in> set (dropna (column (numeric_cols ! 0) priced_df)). a \<noteq> b"
    unfolding prices by auto
  have "corr numeric_cols priced_df ! 0 ! 0 =
        (if \<exists>a \<in> set (dropna (column (numeric_cols ! 0) priced_df)).
              \<exists>b \<in> set (dropna (column (numeric_cols ! 0) priced_df)). a \<noteq> b
         then Some 1 else None)"
    using correlation_matrix_properties [of 0 3 priced_df] len by blast
  then have one: "corr numeric_cols priced_df ! 0 ! 0 = Some 1"
    unfolding if_P [OF spread] .
  have flat: "\<not> (\<exists>a \<in> set (dropna (column (numeric_cols ! 2) priced_df)).
      \<exists>b \<in> set (dropna (column (numeric_cols ! 2) priced_df)). a \<noteq> b)"
    unfolding sold by simp
  have "corr numeric_cols priced_df ! 2 ! 2 =
        (if \<exists>a \<in> set (dropna (column (numeric_cols ! 2) priced_df)).
              \<exists>b \<in> set (dropna (column (numeric_cols ! 2) priced_df)). a \<noteq> b
         then Some 1 else None)"
    using correlation_matrix_properties [of 2 2 priced_df] len by blast
  then have nan: "corr numeric_cols priced_df ! 2 ! 2 = None"
    unfolding if_not_P [OF flat] .
  have cell: "corr numeric_cols priced_df ! 0 ! 2 = None"
    using correlation_matrix_properties [of 0 2 priced_df] len few by blast
  show ?thesis
    using len pairs sym prices one sold nan few cell by blast
qed

section \<open>The largest rows\<close>


















end
